theory Spec2Isabelle
  imports Main
begin

section \<open>The collections of \<open>hardware_lab_system\<close>\<close>

text \<open>
  The documents of \<open>docs/database-schema.md\<close>, with the fields that the two transactions of
  that file read or write. Numbers are integers (a JavaScript Number holds every integer of
  magnitude below \<open>2 ^ 53\<close> exactly), a \<open>Date\<close> is a natural number of the clock, an
  \<open>ObjectId\<close> is a string.
\<close>

record checkout_record =
  c_hw_name :: string
  quantity :: int
  checked_out_at :: nat
  checked_out_by :: string

record project =
  pid :: string
  hardware_checkouts :: "checkout_record list"
  p_updated_at :: nat

record hardware =
  hw_name :: string
  total_capacity :: int
  available :: int
  checked_out :: int
  updated_at :: nat

record db =
  hardwareDB :: "hardware list"
  projectsDB :: "project list"

text \<open>
  A collection is the list of its documents. \<open>findOne\<close> returns the first document that
  matches the filter (\<open>null\<close> is \<open>None\<close>); \<open>updateOne\<close> changes the first document that
  matches and does nothing, without an error, when none does. The positional operator
  \<open>$\<close> of an array update is the same operation on the embedded array.
\<close>

fun findOne :: "('a \<Rightarrow> bool) \<Rightarrow> 'a list \<Rightarrow> 'a option" where
  "findOne flt [] = None"
| "findOne flt (d # ds) = (if flt d then Some d else findOne flt ds)"

fun updateOne :: "('a \<Rightarrow> bool) \<Rightarrow> ('a \<Rightarrow> 'a) \<Rightarrow> 'a list \<Rightarrow> 'a list" where
  "updateOne flt upd [] = []"
| "updateOne flt upd (d # ds) = (if flt d then upd d # ds else d # updateOne flt upd ds)"

text \<open>\<open>$pull\<close> removes every element of the array that matches the condition.\<close>

definition pull :: "('a \<Rightarrow> bool) \<Rightarrow> 'a list \<Rightarrow> 'a list" where
  "pull cond xs = filter (\<lambda>x. \<not> cond x) xs"

section \<open>The two transactions\<close>

text \<open>
  What the \<open>try\<close> block of a transaction can throw: the \<open>Error\<close> it raises itself, and the
  \<open>TypeError\<close> of reading \<open>hardware.available\<close> when \<open>findOne\<close> returned \<open>null\<close>.
\<close>

datatype txn_error = Error string | TypeError

datatype txn_result = Committed | Aborted txn_error

definition InsufficientAvailability :: txn_error where
  "InsufficientAvailability = Error ''Insufficient hardware available''"

text \<open>
  Hardware Checkout. The body of the \<open>try\<close> block on the session's view of the database:
  \<open>Inl\<close> is the exception thrown, \<open>Inr\<close> the view that \<open>commitTransaction\<close> is reached with.
  The three \<open>new Date()\<close> are three readings of the clock.
\<close>

definition checkout_body ::
  "db \<Rightarrow> string \<Rightarrow> string \<Rightarrow> int \<Rightarrow> string \<Rightarrow> nat \<Rightarrow> nat \<Rightarrow> nat \<Rightarrow> txn_error + db" where
  "checkout_body s hwName projectId requestedQty username t1 t2 t3 =
     (case findOne (\<lambda>h. hw_name h = hwName) (hardwareDB s) of
        None \<Rightarrow> Inl TypeError
      | Some hw \<Rightarrow>
          if available hw < requestedQty then Inl (Error ''Insufficient hardware available'')
          else
            let s1 = s\<lparr>hardwareDB :=
                       updateOne (\<lambda>h. hw_name h = hwName)
                         (\<lambda>h. h\<lparr>available := available h + (- requestedQty),
                                checked_out := checked_out h + requestedQty,
                                updated_at := t1\<rparr>)
                         (hardwareDB s)\<rparr>;
                s2 = s1\<lparr>projectsDB :=
                       updateOne (\<lambda>p. pid p = projectId)
                         (\<lambda>p. p\<lparr>hardware_checkouts := hardware_checkouts p @
                                  [\<lparr>c_hw_name = hwName, quantity = requestedQty,
                                    checked_out_at = t2, checked_out_by = username\<rparr>],
                                p_updated_at := t3\<rparr>)
                         (projectsDB s1)\<rparr>
            in Inr s2)"

text \<open>
  The transaction: a thrown exception reaches \<open>catch\<close>, which aborts the session (the
  database stays as it was) and throws the exception again; otherwise the session's
  writes are committed.
\<close>

definition checkout ::
  "db \<Rightarrow> string \<Rightarrow> string \<Rightarrow> int \<Rightarrow> string \<Rightarrow> nat \<Rightarrow> nat \<Rightarrow> nat \<Rightarrow> txn_result \<times> db" where
  "checkout s hwName projectId requestedQty username t1 t2 t3 =
     (case checkout_body s hwName projectId requestedQty username t1 t2 t3 of
        Inl e \<Rightarrow> (Aborted e, s)
      | Inr s' \<Rightarrow> (Committed, s'))"

text \<open>Hardware Check-in: three updates, none of them guarded.\<close>

definition checkin_body ::
  "db \<Rightarrow> string \<Rightarrow> string \<Rightarrow> int \<Rightarrow> nat \<Rightarrow> nat \<Rightarrow> txn_error + db" where
  "checkin_body s hwName projectId returnQty t1 t2 =
     (let s1 = s\<lparr>hardwareDB :=
                 updateOne (\<lambda>h. hw_name h = hwName)
                   (\<lambda>h. h\<lparr>available := available h + returnQty,
                          checked_out := checked_out h + (- returnQty),
                          updated_at := t1\<rparr>)
                   (hardwareDB s)\<rparr>;
          s2 = s1\<lparr>projectsDB :=
                 updateOne
                   (\<lambda>p. pid p = projectId \<and> list_ex (\<lambda>c. c_hw_name c = hwName) (hardware_checkouts p))
                   (\<lambda>p. p\<lparr>hardware_checkouts :=
                            updateOne (\<lambda>c. c_hw_name c = hwName)
                              (\<lambda>c. c\<lparr>quantity := quantity c + (- returnQty)\<rparr>)
                              (hardware_checkouts p),
                          p_updated_at := t2\<rparr>)
                   (projectsDB s1)\<rparr>;
          s3 = s2\<lparr>projectsDB :=
                 updateOne (\<lambda>p. pid p = projectId)
                   (\<lambda>p. p\<lparr>hardware_checkouts := pull (\<lambda>c. quantity c \<le> 0) (hardware_checkouts p)\<rparr>)
                   (projectsDB s2)\<rparr>
      in Inr s3)"

definition checkin ::
  "db \<Rightarrow> string \<Rightarrow> string \<Rightarrow> int \<Rightarrow> nat \<Rightarrow> nat \<Rightarrow> txn_result \<times> db" where
  "checkin s hwName projectId returnQty t1 t2 =
     (case checkin_body s hwName projectId returnQty t1 t2 of
        Inl e \<Rightarrow> (Aborted e, s)
      | Inr s' \<Rightarrow> (Committed, s'))"

text \<open>What an observer reads of a hardware set and of a project's ledger.\<close>

definition counters :: "db \<Rightarrow> string \<Rightarrow> (int \<times> int \<times> int) option" where
  "counters s hwName =
     map_option (\<lambda>h. (total_capacity h, available h, checked_out h))
       (findOne (\<lambda>h. hw_name h = hwName) (hardwareDB s))"

definition ledger :: "db \<Rightarrow> string \<Rightarrow> checkout_record list option" where
  "ledger s projectId = map_option hardware_checkouts (findOne (\<lambda>p. pid p = projectId) (projectsDB s))"

section \<open>JavaScript values of the front end\<close>

text \<open>
  The values that the React front end handles: JSON as the server sends it, and \<open>NaN\<close>,
  which \<open>parseInt\<close> returns. A string is a list of ASCII characters.
\<close>

datatype js = JUndefined | JNull | JBool bool | JNaN | JNum int | JStr string
  | JObj "(string \<times> js) list"

fun truthy :: "js \<Rightarrow> bool" where
  "truthy JUndefined = False"
| "truthy JNull = False"
| "truthy (JBool b) = b"
| "truthy JNaN = False"
| "truthy (JNum n) = (n \<noteq> 0)"
| "truthy (JStr s) = (s \<noteq> [])"
| "truthy (JObj fs) = True"

text \<open>
  \<open>parseInt(string)\<close> with no radix: leading white space is dropped, then a sign, then
  the prefix \<open>0x\<close> or \<open>0X\<close> (which makes the radix 16), and the longest run of digits of
  the radix is the number; whatever follows it is ignored. \<open>None\<close> is \<open>NaN\<close>: no digit was
  there. The number is exact, as the Number of JavaScript is below \<open>2 ^ 53\<close>.
\<close>

definition is_white_space :: "char \<Rightarrow> bool" where
  "is_white_space c = (c = CHR 0x09 \<or> c = CHR 0x0A \<or> c = CHR 0x0B \<or> c = CHR 0x0C
     \<or> c = CHR 0x0D \<or> c = CHR 0x20)"

definition digit_value :: "char \<Rightarrow> nat option" where
  "digit_value c =
     (let n = (of_char c :: nat) in
      if 48 \<le> n \<and> n \<le> 57 then Some (n - 48)
      else if 97 \<le> n \<and> n \<le> 122 then Some (n - 87)
      else if 65 \<le> n \<and> n \<le> 90 then Some (n - 55)
      else None)"

definition is_digit :: "nat \<Rightarrow> char \<Rightarrow> bool" where
  "is_digit radix c = (case digit_value c of None \<Rightarrow> False | Some d \<Rightarrow> d < radix)"

definition digits_value :: "nat \<Rightarrow> string \<Rightarrow> int" where
  "digits_value radix z =
     foldl (\<lambda>acc c. acc * int radix + int (case digit_value c of None \<Rightarrow> 0 | Some d \<Rightarrow> d)) 0 z"

definition strip_sign :: "string \<Rightarrow> int \<times> string" where
  "strip_sign s =
     (case s of
        [] \<Rightarrow> (1, s)
      | c # r \<Rightarrow> if c = CHR ''-'' then (- 1, r) else if c = CHR ''+'' then (1, r) else (1, s))"

definition strip_prefix :: "string \<Rightarrow> nat \<times> string" where
  "strip_prefix s =
     (case s of
        c # x # r \<Rightarrow>
          if c = CHR ''0'' \<and> (x = CHR ''x'' \<or> x = CHR ''X'') then (16, r) else (10, s)
      | _ \<Rightarrow> (10, s))"

definition parseInt_str :: "string \<Rightarrow> int option" where
  "parseInt_str s =
     (let (sign, s2) = strip_sign (dropWhile is_white_space s);
          (radix, s3) = strip_prefix s2;
          z = takeWhile (is_digit radix) s3
      in if z = [] then None else Some (sign * digits_value radix z))"

text \<open>
  \<open>parseInt\<close> of any value parses the value's string. An integer prints as its decimal
  digits (for a magnitude below \<open>10 ^ 21\<close>), so it parses to itself; \<open>undefined\<close>, \<open>null\<close>,
  a boolean, \<open>NaN\<close> and an object print as a word that starts with no digit.
\<close>

fun parseInt :: "js \<Rightarrow> js" where
  "parseInt (JStr s) = (case parseInt_str s of None \<Rightarrow> JNaN | Some n \<Rightarrow> JNum n)"
| "parseInt (JNum n) = JNum n"
| "parseInt v = JNaN"

text \<open>
  Reading a property: of \<open>undefined\<close> or \<open>null\<close> it throws a \<open>TypeError\<close> (\<open>None\<close>), of an
  object it is the field or \<open>undefined\<close>, and of any other value of this model it is
  \<open>undefined\<close>.
\<close>

fun get_prop :: "js \<Rightarrow> string \<Rightarrow> js option" where
  "get_prop JUndefined k = None"
| "get_prop JNull k = None"
| "get_prop (JObj fs) k = (case map_of fs k of None \<Rightarrow> Some JUndefined | Some v \<Rightarrow> Some v)"
| "get_prop v k = Some JUndefined"

section \<open>The hardware service layer\<close>

text \<open>
  \<open>api\<close> is the axios instance: a request resolves with a response or is rejected with an
  error, whose \<open>response\<close> is there only when the server answered. The interceptors of
  \<open>api.js\<close> log and pass the response or the error on as it is.
\<close>

datatype request = Get string | Post string "(string \<times> js) list"

record response =
  status :: nat
  data :: js

datatype thrown = AxiosError (err_response: "response option")

datatype outcome = Resolved response | Rejected thrown

type_synonym api = "request \<Rightarrow> outcome"

text \<open>A JavaScript computation throws (\<open>Inl\<close>) or returns (\<open>Inr\<close>).\<close>

definition await :: "outcome \<Rightarrow> thrown + response" where
  "await out = (case out of Resolved r \<Rightarrow> Inr r | Rejected e \<Rightarrow> Inl e)"

definition try_catch :: "thrown + 'a \<Rightarrow> (thrown \<Rightarrow> thrown + 'a) \<Rightarrow> thrown + 'a" where
  "try_catch body handler = (case body of Inl e \<Rightarrow> handler e | Inr v \<Rightarrow> Inr v)"

definition connect_failed :: js where
  "connect_failed = JObj [(''success'', JBool False), (''error'', JStr ''Failed to connect to server'')]"

text \<open>The \<open>catch\<close> block that every function of the service layer has.\<close>

definition service_catch :: "thrown \<Rightarrow> thrown + js" where
  "service_catch error =
     (case err_response error of
        Some r \<Rightarrow> if truthy (data r) then Inr (data r) else Inr connect_failed
      | None \<Rightarrow> Inr connect_failed)"

definition return_data :: "thrown + response \<Rightarrow> thrown + js" where
  "return_data r = (case r of Inl e \<Rightarrow> Inl e | Inr response \<Rightarrow> Inr (data response))"

definition check_out_request :: "string \<Rightarrow> string \<Rightarrow> js \<Rightarrow> request" where
  "check_out_request projectId hwName qty =
     Post ''/check_out''
       [(''project_id'', JStr projectId), (''hw_name'', JStr hwName), (''quantity'', parseInt qty)]"

definition check_in_request :: "string \<Rightarrow> string \<Rightarrow> js \<Rightarrow> request" where
  "check_in_request projectId hwName qty =
     Post ''/check_in''
       [(''project_id'', JStr projectId), (''hw_name'', JStr hwName), (''quantity'', parseInt qty)]"




definition checkOutHardware :: "api \<Rightarrow> string \<Rightarrow> string \<Rightarrow> js \<Rightarrow> thrown + js" where
  "checkOutHardware api projectId hwName qty =
     try_catch (return_data (await (api (check_out_request projectId hwName qty)))) service_catch"

definition checkInHardware :: "api \<Rightarrow> string \<Rightarrow> string \<Rightarrow> js \<Rightarrow> thrown + js" where
  "checkInHardware api projectId hwName qty =
     try_catch (return_data (await (api (check_in_request projectId hwName qty)))) service_catch"


section \<open>The handlers of the Hardware Inventory page\<close>

text \<open>
  The state variables of \<open>HardwareInventoryPage\<close> that the two submit handlers read and
  write. \<open>quantity\<close> is the text of the input field, \<open>selectedHardware\<close> the hardware set
  whose form is open (\<open>null\<close> is \<open>None\<close>), as the server listed it.
\<close>

record ui_state =
  ui_error :: js
  selectedHardware :: "hardware option"
  selectedProject :: string
  ui_quantity :: string

text \<open>
  What a handler leaves behind: the state variables, the requests it sent through the
  service layer, in order, and whether it started \<open>loadData()\<close> to fetch the lists again.
  A handler that throws is \<open>None\<close>: \<open>handleCheckout\<close> reads \<open>selectedHardware.available\<close>
  outside its \<open>try\<close> block, so a \<open>null\<close> \<open>selectedHardware\<close> is a \<open>TypeError\<close> there, while
  \<open>handleCheckin\<close> first reads \<open>selectedHardware.hw_name\<close> inside it, where \<open>catch\<close>
  reports the exception.
\<close>

record handler_out =
  ui :: ui_state
  sent :: "request list"
  reload :: bool

definition stop_with :: "ui_state \<Rightarrow> string \<Rightarrow> handler_out option" where
  "stop_with u msg = Some \<lparr>ui = u\<lparr>ui_error := JStr msg\<rparr>, sent = [], reload = False\<rparr>"

text \<open>
  The part of a handler after the service call returned: the \<open>try\<close> block reads
  \<open>response.success\<close>, and its \<open>catch\<close> reports any exception.
\<close>

definition after_response ::
  "ui_state \<Rightarrow> request \<Rightarrow> thrown + js \<Rightarrow> string \<Rightarrow> string \<Rightarrow> handler_out option" where
  "after_response u req result failed_msg caught_msg =
     (case result of
        Inl e \<Rightarrow> Some \<lparr>ui = u\<lparr>ui_error := JStr caught_msg\<rparr>, sent = [req], reload = False\<rparr>
      | Inr response \<Rightarrow>
          (case get_prop response ''success'' of
             None \<Rightarrow> Some \<lparr>ui = u\<lparr>ui_error := JStr caught_msg\<rparr>, sent = [req], reload = False\<rparr>
           | Some success \<Rightarrow>
               if truthy success
               then Some \<lparr>ui = u\<lparr>selectedHardware := None, ui_quantity := [], selectedProject := []\<rparr>,
                          sent = [req], reload = True\<rparr>
               else
                 (case get_prop response ''error'' of
                    None \<Rightarrow> Some \<lparr>ui = u\<lparr>ui_error := JStr caught_msg\<rparr>, sent = [req], reload = False\<rparr>
                  | Some err \<Rightarrow>
                      Some \<lparr>ui = u\<lparr>ui_error := (if truthy err then err else JStr failed_msg)\<rparr>,
                            sent = [req], reload = False\<rparr>)))"

definition handleCheckout :: "api \<Rightarrow> ui_state \<Rightarrow> handler_out option" where
  "handleCheckout api u0 =
     (let u = u0\<lparr>ui_error := JStr []\<rparr> in
      if selectedProject u = [] \<or> ui_quantity u = []
      then stop_with u ''Please select a project and enter quantity''
      else
        (case parseInt_str (ui_quantity u) of
           None \<Rightarrow> stop_with u ''Please enter a valid quantity''
         | Some qty \<Rightarrow>
             if qty \<le> 0 then stop_with u ''Please enter a valid quantity''
             else
               (case selectedHardware u of
                  None \<Rightarrow> None
                | Some hw \<Rightarrow>
                    if qty > available hw then stop_with u ''Insufficient hardware available''
                    else
                      after_response u
                        (check_out_request (selectedProject u) (hw_name hw) (JNum qty))
                        (checkOutHardware api (selectedProject u) (hw_name hw) (JNum qty))
                        ''Failed to checkout hardware'' ''An error occurred during checkout'')))"

definition handleCheckin :: "api \<Rightarrow> ui_state \<Rightarrow> handler_out option" where
  "handleCheckin api u0 =
     (let u = u0\<lparr>ui_error := JStr []\<rparr> in
      if selectedProject u = [] \<or> ui_quantity u = []
      then stop_with u ''Please select a project and enter quantity''
      else
        (case parseInt_str (ui_quantity u) of
           None \<Rightarrow> stop_with u ''Please enter a valid quantity''
         | Some qty \<Rightarrow>
             if qty \<le> 0 then stop_with u ''Please enter a valid quantity''
             else
               (case selectedHardware u of
                  None \<Rightarrow> stop_with u ''An error occurred during check-in''
                | Some hw \<Rightarrow>
                    after_response u
                      (check_in_request (selectedProject u) (hw_name hw) (JNum qty))
                      (checkInHardware api (selectedProject u) (hw_name hw) (JNum qty))
                      ''Failed to check in hardware'' ''An error occurred during check-in'')))"

section \<open>A laboratory to run the operations on\<close>

text \<open>
  A hardware set as it is created, with nothing checked out, and two projects with empty
  ledgers; then the same hardware set with 5 units out, in a ledger that also holds a
  record of another hardware set whose quantity is 0.
\<close>

definition arduino :: hardware where
  "arduino = \<lparr>hw_name = ''Arduino Uno'', total_capacity = 50, available = 50, checked_out = 0,
     updated_at = 0\<rparr>"

definition lab0 :: db where
  "lab0 = \<lparr>hardwareDB = [arduino],
     projectsDB = [\<lparr>pid = ''A'', hardware_checkouts = [], p_updated_at = 0\<rparr>,
                   \<lparr>pid = ''B'', hardware_checkouts = [], p_updated_at = 0\<rparr>]\<rparr>"

definition lab_stale :: db where
  "lab_stale = \<lparr>hardwareDB = [arduino\<lparr>available := 45, checked_out := 5\<rparr>],
     projectsDB = [\<lparr>pid = ''A'',
                     hardware_checkouts =
                       [\<lparr>c_hw_name = ''DHT22 Sensors'', quantity = 0, checked_out_at = 1,
                          checked_out_by = ''alice''\<rparr>,
                        \<lparr>c_hw_name = ''Arduino Uno'', quantity = 5, checked_out_at = 2,
                          checked_out_by = ''alice''\<rparr>],
                     p_updated_at = 2\<rparr>]\<rparr>"

text \<open>The laboratory after project B checked out 10 units.\<close>

definition lab_B10 :: db where
  "lab_B10 = \<lparr>hardwareDB = [arduino\<lparr>available := 40, checked_out := 10\<rparr>],
     projectsDB = [\<lparr>pid = ''A'', hardware_checkouts = [], p_updated_at = 0\<rparr>,
                   \<lparr>pid = ''B'',
                     hardware_checkouts =
                       [\<lparr>c_hw_name = ''Arduino Uno'', quantity = 10, checked_out_at = 2,
                          checked_out_by = ''bob''\<rparr>],
                     p_updated_at = 3\<rparr>]\<rparr>"



section \<open>The conditions that the properties speak of\<close>

text \<open>
  The two validation rules of \<open>hardwareDB\<close>: \<open>available + checked_out = total_capacity\<close>, and
  \<open>checked_out\<close> between 0 and \<open>total_capacity\<close>.
\<close>

definition consistent :: "hardware \<Rightarrow> bool" where
  "consistent h = (available h + checked_out h = total_capacity h)"

definition within_capacity :: "hardware \<Rightarrow> bool" where
  "within_capacity h = (0 \<le> checked_out h \<and> checked_out h \<le> total_capacity h)"

text \<open>The test \<open>isNaN(qty) || qty <= 0\<close> of the handlers, on the text of the input field.\<close>

definition invalid_quantity :: "string \<Rightarrow> bool" where
  "invalid_quantity q = (case parseInt_str q of None \<Rightarrow> True | Some qty \<Rightarrow> qty \<le> 0)"


section \<open>Properties of the collection operations\<close>

lemma findOne_updateOne_same:
  assumes "\<And>d. flt (upd d) = flt d"
  shows "findOne flt (updateOne flt upd ds) = map_option upd (findOne flt ds)"
  using assms by (induction ds) auto

lemma findOne_updateOne:
  assumes "\<And>d. g d \<Longrightarrow> f d" and "\<And>d. f (u d) = f d"
  shows "findOne f (updateOne g u ds) = map_option (\<lambda>d. if g d then u d else d) (findOne f ds)"
  using assms by (induction ds) auto

lemma findOne_Some_holds: "findOne flt ds = Some d \<Longrightarrow> flt d"
  by (induction ds) (auto split: if_splits)

lemma findOne_Some_mem: "findOne flt ds = Some d \<Longrightarrow> d \<in> set ds"
  by (induction ds) (auto split: if_splits)

lemma updateOne_none: "\<not> list_ex flt xs \<Longrightarrow> updateOne flt f xs = xs"
  by (induction xs) auto

lemma list_all_updateOne:
  assumes "list_all P ds" and "\<And>d. findOne flt ds = Some d \<Longrightarrow> P d \<Longrightarrow> P (upd d)"
  shows "list_all P (updateOne flt upd ds)"
  using assms by (induction ds) auto

section \<open>Checkout\<close>

lemma counters_checkout:
  assumes "findOne (\<lambda>h. hw_name h = hwName) (hardwareDB s) = Some hw"
    and "\<not> available hw < q"
  shows "\<exists>s1. checkout s hwName p q u t1 t2 t3 = (Committed, s1) \<and>
     counters s1 hwName = Some (total_capacity hw, available hw - q, checked_out hw + q)"
  using assms
  by (simp add: checkout_def checkout_body_def counters_def Let_def findOne_updateOne_same)

lemma hardwareDB_checkout:
  "hardwareDB (snd (checkout s hwName p q u t1 t2 t3)) =
     (case findOne (\<lambda>h. hw_name h = hwName) (hardwareDB s) of
        None \<Rightarrow> hardwareDB s
      | Some hw \<Rightarrow>
          if available hw < q then hardwareDB s
          else updateOne (\<lambda>h. hw_name h = hwName)
                 (\<lambda>h. h\<lparr>available := available h + (- q), checked_out := checked_out h + q,
                        updated_at := t1\<rparr>) (hardwareDB s))"
  by (simp add: checkout_def checkout_body_def Let_def split: option.splits)

text \<open>
  C2. A checkout that asks for more than the hardware set's \<open>available\<close> is aborted with the
  error "Insufficient hardware available", and the database (every counter, every ledger)
  is what it was before the call.
\<close>

theorem checkout_insufficient_no_change:
  assumes "findOne (\<lambda>h. hw_name h = hwName) (hardwareDB s) = Some hw"
    and "requestedQty > available hw"
  shows "checkout s hwName projectId requestedQty username t1 t2 t3 = (Aborted InsufficientAvailability, s)"
  using assms by (simp add: checkout_def checkout_body_def InsufficientAvailability_def)

theorem checkout_insufficient_no_change_witness:
  "findOne (\<lambda>h. hw_name h = ''Arduino Uno'') (hardwareDB lab0) = Some arduino \<and>
   51 > available arduino \<and>
   checkout lab0 ''Arduino Uno'' ''A'' 51 ''alice'' 1 2 3 = (Aborted InsufficientAvailability, lab0)"
  using checkout_insufficient_no_change [of "''Arduino Uno''" lab0 arduino 51 "''A''" "''alice''" 1 2 3]
  by (simp add: lab0_def arduino_def)

text \<open>
  The page makes the same comparison on the availability it last loaded, before it sends
  anything.
\<close>

lemma handleCheckout_insufficient:
  assumes "selectedProject u \<noteq> []" and "ui_quantity u \<noteq> []"
    and "parseInt_str (ui_quantity u) = Some qty" and "0 < qty"
    and "selectedHardware u = Some hw" and "qty > available hw"
  shows "handleCheckout api u =
    Some \<lparr>ui = u\<lparr>ui_error := JStr ''Insufficient hardware available''\<rparr>, sent = [], reload = False\<rparr>"
  using assms by (simp add: handleCheckout_def stop_with_def)

text \<open>
  C6. When a hardware set has \<open>a > 0\<close> units available, a checkout of exactly \<open>a\<close> units
  commits and leaves \<open>available = 0\<close>, and a checkout of one more unit, by any project, is
  then aborted with "Insufficient hardware available": the comparison is strict.
\<close>

theorem checkout_exact_then_one_more:
  assumes "findOne (\<lambda>h. hw_name h = hwName) (hardwareDB s) = Some hw"
    and "0 < available hw"
  shows "\<exists>s1. checkout s hwName p (available hw) u t1 t2 t3 = (Committed, s1) \<and>
      counters s1 hwName = Some (total_capacity hw, 0, checked_out hw + available hw) \<and>
      checkout s1 hwName p' 1 u' t4 t5 t6 = (Aborted InsufficientAvailability, s1)"
proof -
  from counters_checkout [OF assms(1), of "available hw" p u t1 t2 t3] obtain s1 where
    s1: "checkout s hwName p (available hw) u t1 t2 t3 = (Committed, s1)"
    and c1: "counters s1 hwName = Some (total_capacity hw, 0, checked_out hw + available hw)"
    by auto
  from c1 obtain hw1 where
    f1: "findOne (\<lambda>h. hw_name h = hwName) (hardwareDB s1) = Some hw1" and a1: "available hw1 = 0"
    by (auto simp: counters_def)
  have "checkout s1 hwName p' 1 u' t4 t5 t6 = (Aborted InsufficientAvailability, s1)"
    using f1 a1 by (simp add: checkout_def checkout_body_def InsufficientAvailability_def)
  with s1 c1 show ?thesis by blast
qed

theorem checkout_exact_then_one_more_witness:
  "findOne (\<lambda>h. hw_name h = ''Arduino Uno'') (hardwareDB lab0) = Some arduino \<and>
   0 < available arduino \<and>
   (\<exists>s1. checkout lab0 ''Arduino Uno'' ''A'' 50 ''alice'' 1 2 3 = (Committed, s1) \<and>
      counters s1 ''Arduino Uno'' = Some (50, 0, 50) \<and>
      checkout s1 ''Arduino Uno'' ''B'' 1 ''bob'' 4 5 6 = (Aborted InsufficientAvailability, s1))"
  using checkout_exact_then_one_more [of "''Arduino Uno''" lab0 arduino "''A''" "''alice''" 1 2 3 "''B''" "''bob''" 4 5 6]
  by (simp add: lab0_def arduino_def)

text \<open>
  C4, as the code has it. A checkout that commits appends one new record, with the
  requested quantity, to the end of the project's ledger and leaves the records that are
  there as they are: \<open>$push\<close> never looks for a record of the same hardware set.
\<close>

theorem checkout_appends_record:
  assumes "findOne (\<lambda>h. hw_name h = hwName) (hardwareDB s) = Some hw"
    and "requestedQty \<le> available hw"
    and "ledger s projectId = Some l"
  shows "\<exists>s'. checkout s hwName projectId requestedQty username t1 t2 t3 = (Committed, s') \<and>
    ledger s' projectId =
      Some (l @ [\<lparr>c_hw_name = hwName, quantity = requestedQty, checked_out_at = t2,
                  checked_out_by = username\<rparr>])"
  using assms
  by (auto simp: checkout_def checkout_body_def ledger_def Let_def findOne_updateOne_same)

theorem checkout_appends_record_witness:
  "findOne (\<lambda>h. hw_name h = ''Arduino Uno'') (hardwareDB lab0) = Some arduino \<and>
   5 \<le> available arduino \<and> ledger lab0 ''A'' = Some [] \<and>
   (\<exists>s'. checkout lab0 ''Arduino Uno'' ''A'' 5 ''alice'' 1 2 3 = (Committed, s') \<and>
     ledger s' ''A'' = Some [\<lparr>c_hw_name = ''Arduino Uno'', quantity = 5, checked_out_at = 2,
                  checked_out_by = ''alice''\<rparr>])"
  using checkout_appends_record [of "''Arduino Uno''" lab0 arduino 5 "''A''" "[]" "''alice''" 1 2 3]
  by (simp add: lab0_def arduino_def ledger_def)

text \<open>
  C4, as it is stated, fails: project A checks out 5 units and then 3 units of the same
  hardware set, both checkouts commit, and the ledger of A holds two records of that
  hardware set, of 5 and of 3, not one record of 8.
\<close>

theorem second_checkout_adds_second_record:
  "fst (checkout lab0 ''Arduino Uno'' ''A'' 5 ''alice'' 1 2 3) = Committed \<and>
   fst (checkout (snd (checkout lab0 ''Arduino Uno'' ''A'' 5 ''alice'' 1 2 3))
         ''Arduino Uno'' ''A'' 3 ''alice'' 4 5 6) = Committed \<and>
   ledger (snd (checkout (snd (checkout lab0 ''Arduino Uno'' ''A'' 5 ''alice'' 1 2 3))
         ''Arduino Uno'' ''A'' 3 ''alice'' 4 5 6)) ''A'' =
     Some [\<lparr>c_hw_name = ''Arduino Uno'', quantity = 5, checked_out_at = 2, checked_out_by = ''alice''\<rparr>,
           \<lparr>c_hw_name = ''Arduino Uno'', quantity = 3, checked_out_at = 5, checked_out_by = ''alice''\<rparr>]"
  by (simp add: checkout_def checkout_body_def lab0_def arduino_def ledger_def)

section \<open>Check-in\<close>

lemma counters_checkin:
  assumes "findOne (\<lambda>h. hw_name h = hwName) (hardwareDB s) = Some hw"
  shows "\<exists>s1. checkin s hwName p q t1 t2 = (Committed, s1) \<and>
     counters s1 hwName = Some (total_capacity hw, available hw + q, checked_out hw - q)"
  using assms
  by (simp add: checkin_def checkin_body_def counters_def Let_def findOne_updateOne_same)

lemma hardwareDB_checkin:
  "hardwareDB (snd (checkin s hwName p q t1 t2)) =
     updateOne (\<lambda>h. hw_name h = hwName)
       (\<lambda>h. h\<lparr>available := available h + q, checked_out := checked_out h + (- q),
              updated_at := t1\<rparr>) (hardwareDB s)"
  by (simp add: checkin_def checkin_body_def Let_def)

lemma ledger_checkin:
  assumes "ledger s projectId = Some l"
  shows "\<exists>s'. checkin s hwName projectId returnQty t1 t2 = (Committed, s') \<and>
    ledger s' projectId =
      Some (pull (\<lambda>c. quantity c \<le> 0)
        (updateOne (\<lambda>c. c_hw_name c = hwName) (\<lambda>c. c\<lparr>quantity := quantity c + (- returnQty)\<rparr>) l))"
proof -
  define dec where "dec = (\<lambda>c::checkout_record. c\<lparr>quantity := quantity c + (- returnQty)\<rparr>)"
  define g where "g = (\<lambda>p::project. pid p = projectId \<and> list_ex (\<lambda>c. c_hw_name c = hwName) (hardware_checkouts p))"
  define u2 where "u2 = (\<lambda>p::project. p\<lparr>hardware_checkouts :=
      updateOne (\<lambda>c. c_hw_name c = hwName) dec (hardware_checkouts p), p_updated_at := t2\<rparr>)"
  define u3 where "u3 = (\<lambda>p::project. p\<lparr>hardware_checkouts :=
      pull (\<lambda>c. quantity c \<le> 0) (hardware_checkouts p)\<rparr>)"
  define ps2 where "ps2 = updateOne g u2 (projectsDB s)"
  from assms obtain P where P: "findOne (\<lambda>p. pid p = projectId) (projectsDB s) = Some P"
    and l: "l = hardware_checkouts P"
    by (auto simp: ledger_def)
  have f2: "findOne (\<lambda>p. pid p = projectId) ps2 = Some (if g P then u2 P else P)"
    unfolding ps2_def using findOne_updateOne [of g "\<lambda>p. pid p = projectId" u2 "projectsDB s"] P
    by (simp add: g_def u2_def)
  have h2: "hardware_checkouts (if g P then u2 P else P) = updateOne (\<lambda>c. c_hw_name c = hwName) dec l"
  proof (cases "g P")
    case True
    then show ?thesis by (simp add: u2_def l)
  next
    case False
    with P have "\<not> list_ex (\<lambda>c. c_hw_name c = hwName) l"
      using findOne_Some_holds [of "\<lambda>p. pid p = projectId" "projectsDB s" P] by (simp add: g_def l)
    with False show ?thesis by (simp add: updateOne_none l)
  qed
  have f3: "findOne (\<lambda>p. pid p = projectId) (updateOne (\<lambda>p. pid p = projectId) u3 ps2)
      = Some (u3 (if g P then u2 P else P))"
    using findOne_updateOne_same [of "\<lambda>p. pid p = projectId" u3 ps2] f2 by (simp add: u3_def)
  have "checkin s hwName projectId returnQty t1 t2 =
      (Committed, s\<lparr>hardwareDB := updateOne (\<lambda>h. hw_name h = hwName)
                   (\<lambda>h. h\<lparr>available := available h + returnQty,
                          checked_out := checked_out h + (- returnQty),
                          updated_at := t1\<rparr>) (hardwareDB s),
                 projectsDB := updateOne (\<lambda>p. pid p = projectId) u3 ps2\<rparr>)"
    by (simp add: checkin_def checkin_body_def Let_def ps2_def g_def u2_def u3_def dec_def)
  moreover have "hardware_checkouts (u3 (if g P then u2 P else P)) =
      pull (\<lambda>c. quantity c \<le> 0) (updateOne (\<lambda>c. c_hw_name c = hwName) dec l)"
    using h2 by (simp add: u3_def)
  ultimately show ?thesis
    using f3 by (simp add: ledger_def dec_def)
qed

text \<open>
  C10. The clean-up step of a check-in is not keyed to the hardware set that is returned:
  after a check-in by a project, the project's ledger is its former ledger, with the first
  record of the returned hardware set decremented, without every record whose quantity is
  zero or less, whatever its hardware set. No record of the ledger has a quantity that is
  not positive.
\<close>

theorem checkin_pulls_every_nonpositive_record:
  assumes "ledger s projectId = Some l"
  shows "\<exists>s' l'. checkin s hwName projectId returnQty t1 t2 = (Committed, s') \<and>
    ledger s' projectId = Some l' \<and>
    l' = pull (\<lambda>c. quantity c \<le> 0)
        (updateOne (\<lambda>c. c_hw_name c = hwName) (\<lambda>c. c\<lparr>quantity := quantity c + (- returnQty)\<rparr>) l) \<and>
    (\<forall>c \<in> set l'. 0 < quantity c)"
  using ledger_checkin [OF assms, of hwName returnQty t1 t2] by (auto simp: pull_def)

theorem checkin_pulls_every_nonpositive_record_witness:
  "ledger lab_stale ''A'' =
     Some [\<lparr>c_hw_name = ''DHT22 Sensors'', quantity = 0, checked_out_at = 1, checked_out_by = ''alice''\<rparr>,
           \<lparr>c_hw_name = ''Arduino Uno'', quantity = 5, checked_out_at = 2, checked_out_by = ''alice''\<rparr>] \<and>
   (\<exists>s'. checkin lab_stale ''Arduino Uno'' ''A'' 2 7 8 = (Committed, s') \<and>
      ledger s' ''A'' =
        Some [\<lparr>c_hw_name = ''Arduino Uno'', quantity = 3, checked_out_at = 2, checked_out_by = ''alice''\<rparr>])"
  using checkin_pulls_every_nonpositive_record [of lab_stale "''A''" _ "''Arduino Uno''" 2 7 8]
  by (simp add: lab_stale_def ledger_def pull_def)

text \<open>
  C3, on the code. Project B holds 10 units and returns 20: the check-in commits, the
  hardware set is left with \<open>available = 60\<close> and \<open>checked_out = - 10\<close>, and the record of B is
  pulled from its ledger. Project A holds no record and returns 1 unit: the check-in
  commits and moves one unit from \<open>checked_out\<close> to \<open>available\<close>. No check-in is refused.
\<close>

theorem checkin_over_release_commits:
  "checkin lab_B10 ''Arduino Uno'' ''B'' 20 4 5 =
     (Committed,
      \<lparr>hardwareDB = [arduino\<lparr>available := 60, checked_out := - 10, updated_at := 4\<rparr>],
       projectsDB = [\<lparr>pid = ''A'', hardware_checkouts = [], p_updated_at = 0\<rparr>,
                     \<lparr>pid = ''B'', hardware_checkouts = [], p_updated_at = 5\<rparr>]\<rparr>) \<and>
   checkin lab_B10 ''Arduino Uno'' ''A'' 1 4 5 =
     (Committed, lab_B10\<lparr>hardwareDB := [arduino\<lparr>available := 41, checked_out := 9, updated_at := 4\<rparr>]\<rparr>)"
  by (simp add: checkin_def checkin_body_def lab_B10_def arduino_def pull_def)

text \<open>
  The page does not compare either: \<open>handleCheckin\<close> sends every positive quantity,
  where \<open>handleCheckout\<close> first compares the quantity with \<open>available\<close>.
\<close>

lemma sent_after_response:
  "map_option sent (after_response u req result failed_msg caught_msg) = Some [req]"
  by (simp add: after_response_def split: sum.splits option.splits)

lemma handleCheckin_sends_any_positive:
  assumes "selectedProject u \<noteq> []" and "ui_quantity u \<noteq> []"
    and "parseInt_str (ui_quantity u) = Some qty" and "0 < qty"
    and "selectedHardware u = Some hw"
  shows "map_option sent (handleCheckin api u) =
    Some [check_in_request (selectedProject u) (hw_name hw) (JNum qty)]"
  using assms by (simp add: handleCheckin_def sent_after_response)

section \<open>Checkout and check-in together\<close>

text \<open>
  C5. Round trip: for a positive quantity within \<open>available\<close>, a checkout followed by the
  check-in of the same quantity both commit, and the hardware set has the total capacity,
  the \<open>available\<close> and the \<open>checked_out\<close> that it had before the checkout.
\<close>

theorem checkout_checkin_round_trip:
  assumes "findOne (\<lambda>h. hw_name h = hwName) (hardwareDB s) = Some hw"
    and "0 < q" and "q \<le> available hw"
  shows "\<exists>s1 s2. checkout s hwName p q u t1 t2 t3 = (Committed, s1) \<and>
      checkin s1 hwName p q t4 t5 = (Committed, s2) \<and>
      counters s2 hwName = counters s hwName"
proof -
  from assms obtain s1 where
    s1: "checkout s hwName p q u t1 t2 t3 = (Committed, s1)"
    and c1: "counters s1 hwName = Some (total_capacity hw, available hw - q, checked_out hw + q)"
    using counters_checkout [of hwName s hw q p u t1 t2 t3] by auto
  from c1 obtain hw1 where
    f1: "findOne (\<lambda>h. hw_name h = hwName) (hardwareDB s1) = Some hw1"
    and v1: "total_capacity hw1 = total_capacity hw" "available hw1 = available hw - q"
      "checked_out hw1 = checked_out hw + q"
    by (auto simp: counters_def)
  from counters_checkin [OF f1, of p q t4 t5] obtain s2 where
    s2: "checkin s1 hwName p q t4 t5 = (Committed, s2)"
    and c2: "counters s2 hwName = Some (total_capacity hw1, available hw1 + q, checked_out hw1 - q)"
    by auto
  have "counters s2 hwName = counters s hwName"
    using c2 v1 assms(1) by (simp add: counters_def)
  with s1 s2 show ?thesis by blast
qed

theorem checkout_checkin_round_trip_witness:
  "findOne (\<lambda>h. hw_name h = ''Arduino Uno'') (hardwareDB lab0) = Some arduino \<and>
   (0::int) < 5 \<and> 5 \<le> available arduino \<and>
   (\<exists>s1 s2. checkout lab0 ''Arduino Uno'' ''A'' 5 ''alice'' 1 2 3 = (Committed, s1) \<and>
      checkin s1 ''Arduino Uno'' ''A'' 5 4 5 = (Committed, s2) \<and>
      counters s2 ''Arduino Uno'' = Some (50, 50, 0))"
  using checkout_checkin_round_trip [of "''Arduino Uno''" lab0 arduino 5 "''A''" "''alice''" 1 2 3 4 5]
  by (simp add: lab0_def arduino_def counters_def)

text \<open>
  What the two transactions keep of the invariant of \<open>hardwareDB\<close>: both keep
  \<open>available + checked_out = total_capacity\<close> for every hardware set and every quantity, and
  a checkout of a quantity that is not negative keeps \<open>checked_out\<close> between 0 and
  \<open>total_capacity\<close>.
\<close>

lemma checkout_keeps_sum:
  assumes "list_all consistent (hardwareDB s)"
  shows "list_all consistent (hardwareDB (snd (checkout s hwName p q u t1 t2 t3)))"
  using assms
  by (auto simp: hardwareDB_checkout consistent_def split: option.splits
      intro!: list_all_updateOne)

lemma checkin_keeps_sum:
  assumes "list_all consistent (hardwareDB s)"
  shows "list_all consistent (hardwareDB (snd (checkin s hwName p q t1 t2)))"
  using assms
  by (auto simp: hardwareDB_checkin consistent_def intro!: list_all_updateOne)

lemma checkout_keeps_bounds:
  assumes "list_all consistent (hardwareDB s)" and "list_all within_capacity (hardwareDB s)"
    and "0 \<le> q"
  shows "list_all within_capacity (hardwareDB (snd (checkout s hwName p q u t1 t2 t3)))"
proof (cases "findOne (\<lambda>h. hw_name h = hwName) (hardwareDB s)")
  case None
  with assms(2) show ?thesis by (simp add: hardwareDB_checkout)
next
  case (Some hw)
  from Some assms(1) have c: "consistent hw"
    using findOne_Some_mem [of "\<lambda>h. hw_name h = hwName" "hardwareDB s" hw]
    by (auto simp: list_all_iff)
  show ?thesis
  proof (cases "available hw < q")
    case True
    with Some assms(2) show ?thesis by (simp add: hardwareDB_checkout)
  next
    case False
    have "list_all within_capacity (updateOne (\<lambda>h. hw_name h = hwName)
                 (\<lambda>h. h\<lparr>available := available h + (- q), checked_out := checked_out h + q,
                        updated_at := t1\<rparr>) (hardwareDB s))"
    proof (rule list_all_updateOne [OF assms(2)])
      fix d assume "findOne (\<lambda>h. hw_name h = hwName) (hardwareDB s) = Some d" and "within_capacity d"
      with Some have "d = hw" by simp
      with c False assms(3) \<open>within_capacity d\<close>
      show "within_capacity (d\<lparr>available := available d + (- q), checked_out := checked_out d + q,
                        updated_at := t1\<rparr>)"
        by (simp add: within_capacity_def consistent_def)
    qed
    with Some False show ?thesis by (simp add: hardwareDB_checkout)
  qed
qed

text \<open>
  C1, on the code. The check-in has no guard: on the hardware set as it was created, with
  50 units and nothing checked out, a check-in of 5 units commits and leaves
  \<open>available = 55\<close> and \<open>checked_out = - 5\<close>. The sum is still \<open>total_capacity\<close>, and
  \<open>checked_out\<close> is below 0.
\<close>

theorem checkin_without_checkout_breaks_bounds:
  "list_all consistent (hardwareDB lab0) \<and> list_all within_capacity (hardwareDB lab0) \<and>
   checkin lab0 ''Arduino Uno'' ''A'' 5 1 2 =
     (Committed, lab0\<lparr>hardwareDB := [arduino\<lparr>available := 55, checked_out := - 5, updated_at := 1\<rparr>]\<rparr>) \<and>
   list_all consistent (hardwareDB (snd (checkin lab0 ''Arduino Uno'' ''A'' 5 1 2))) \<and>
   \<not> list_all within_capacity (hardwareDB (snd (checkin lab0 ''Arduino Uno'' ''A'' 5 1 2)))"
  by (simp add: checkin_def checkin_body_def lab0_def arduino_def pull_def consistent_def
      within_capacity_def)

section \<open>The front end\<close>

lemma parseInt_str_decimal: "parseInt_str ''5.7'' = Some 5"
  by (simp add: parseInt_str_def strip_sign_def strip_prefix_def is_white_space_def
      is_digit_def digit_value_def digits_value_def Let_def)

lemma parseInt_str_negative: "parseInt_str ''-3'' = Some (- 3)"
  by (simp add: parseInt_str_def strip_sign_def strip_prefix_def is_white_space_def
      is_digit_def digit_value_def digits_value_def Let_def)

lemma parseInt_str_zero: "parseInt_str ''0'' = Some 0"
  by (simp add: parseInt_str_def strip_sign_def strip_prefix_def is_white_space_def
      is_digit_def digit_value_def digits_value_def Let_def)

lemma invalid_quantity_examples:
  "invalid_quantity ''0''" "invalid_quantity ''-3''" "\<not> invalid_quantity ''5.7''"
  by (simp_all add: invalid_quantity_def parseInt_str_zero parseInt_str_negative parseInt_str_decimal)




subsection \<open>The service layer\<close>





end
